theory Spec2Isabelle
  imports Main
begin

section \<open>Python strings\<close>

text \<open>
  A Python \<open>str\<close> is a sequence of Unicode code points. The delimiter used by
  \<open>convert_dict_to_markdown\<close> contains U+2014, so a code point is a natural number
  here and not an 8-bit \<open>char\<close>. \<open>ascii\<close> reads an ASCII literal as such a string.
\<close>

type_synonym codepoint = nat
type_synonym ustr = "codepoint list"

definition ascii :: "string \<Rightarrow> ustr" where
  "ascii s = map of_char s"

text \<open>
  \<open>str.isspace\<close> on one code point: the characters CPython's \<open>str.split()\<close> treats as
  whitespace (U+0009..U+000D, U+001C..U+0020, U+0085, U+00A0, U+1680, U+2000..U+200A,
  U+2028, U+2029, U+202F, U+205F, U+3000).
\<close>

definition isspace :: "codepoint \<Rightarrow> bool" where
  "isspace c \<longleftrightarrow>
     (9 \<le> c \<and> c \<le> 13) \<or> (28 \<le> c \<and> c \<le> 32) \<or> c = 133 \<or> c = 160 \<or> c = 5760 \<or>
     (8192 \<le> c \<and> c \<le> 8202) \<or> c = 8232 \<or> c = 8233 \<or> c = 8239 \<or> c = 8287 \<or> c = 12288"

text \<open>
  \<open>s.split()\<close> with no argument: the maximal runs of non-whitespace characters, in order.
  \<open>cur\<close> is the run being read.
\<close>

primrec split_run :: "ustr \<Rightarrow> ustr \<Rightarrow> ustr list" where
  "split_run cur [] = (if cur = [] then [] else [cur])"
| "split_run cur (c # cs) =
     (if isspace c then (if cur = [] then split_run [] cs else cur # split_run [] cs)
      else split_run (cur @ [c]) cs)"

definition str_split :: "ustr \<Rightarrow> ustr list" where
  "str_split s = split_run [] s"

text \<open>\<open>sep.join(xs)\<close>.\<close>

fun str_join :: "ustr \<Rightarrow> ustr list \<Rightarrow> ustr" where
  "str_join sep [] = []"
| "str_join sep [x] = x"
| "str_join sep (x # y # ys) = x @ sep @ str_join sep (y # ys)"

text \<open>\<open>s.strip()\<close>: whitespace removed at both ends.\<close>

definition str_strip :: "ustr \<Rightarrow> ustr" where
  "str_strip s = rev (dropWhile isspace (rev (dropWhile isspace s)))"

text \<open>
  \<open>s.split(sep)\<close> for a non-empty separator: left to right, occurrences do not overlap,
  empty pieces are kept. (Python raises \<open>ValueError\<close> on an empty separator; the only
  separator of the program is a two-character literal.)
\<close>

function split_on :: "ustr \<Rightarrow> ustr \<Rightarrow> ustr \<Rightarrow> ustr list" where
  "split_on sep cur [] = [cur]"
| "split_on sep cur (c # cs) =
     (if sep \<noteq> [] \<and> take (length sep) (c # cs) = sep
      then cur # split_on sep [] (drop (length sep) (c # cs))
      else split_on sep (cur @ [c]) cs)"
  by pat_completeness auto
termination
  by (relation "measure (\<lambda>(sep, cur, s). length s)") auto

text \<open>
  \<open>s.lower()\<close> on ASCII text: the only string the program lower-cases is the selected
  visa type, one of four ASCII labels.
\<close>

definition lower_cp :: "codepoint \<Rightarrow> codepoint" where
  "lower_cp c = (if 65 \<le> c \<and> c \<le> 90 then c + 32 else c)"

definition str_lower :: "ustr \<Rightarrow> ustr" where
  "str_lower s = map lower_cp s"

text \<open>\<open>str(n)\<close> for an integer, as an f-string formats \<open>response.status_code\<close>.\<close>

fun digits :: "nat \<Rightarrow> ustr" where
  "digits n = (if n < 10 then [48 + n] else digits (n div 10) @ [48 + n mod 10])"

declare digits.simps [simp del]

definition str_int :: "int \<Rightarrow> ustr" where
  "str_int i = (if i < 0 then 45 # digits (nat (- i)) else digits (nat i))"

section \<open>Values, exceptions and the outside world\<close>

text \<open>An exception: its class name and \<open>str(e)\<close>.\<close>

datatype exn = Exn (exn_class: ustr) (exn_str: ustr)

text \<open>A parsed JSON value, as \<open>response.json()\<close> of the OCR service returns it.\<close>

datatype json =
  JNull
| JBool bool
| JNum int
| JStr ustr
| JArr "json list"
| JObj "(ustr \<times> json) list"

type_synonym bytes = "nat list"

record ocr_response =
  ocr_status_code :: int
  ocr_json :: "exn + json"

text \<open>
  The result of the roadmap service (data model of the program): Python \<open>None\<close> (JSON
  null), a plain string, or a mapping with the fields \<open>questionnaire\<close>, \<open>job_roles\<close>,
  \<open>noc_codes\<close>, \<open>crs_score\<close> and \<open>roadmap\<close>, each of which may be missing.
  \<open>other_keys\<close> are keys the program never reads; they only count for the truth value
  of the mapping.
\<close>

record immigration_dict =
  questionnaire :: "ustr option"
  job_roles :: "ustr option"
  noc_codes :: "ustr list option"
  crs_score :: "ustr option"
  roadmap :: "ustr option"
  other_keys :: "ustr list"

datatype roadmap_result =
  RNone
| RStr ustr
| RDict immigration_dict

record roadmap_response =
  status_code :: int
  json_body :: "exn + roadmap_result"

text \<open>
  One run of the script sees the world through four things: the configured secrets, the
  OCR endpoint (outcome of \<open>requests.post\<close> for an API key and the document's bytes),
  PyPDF2 (\<open>PdfReader\<close> and its pages raise, or every page's
  \<open>text += page.extract_text()\<close> raises or yields a string), and the roadmap endpoint
  (outcome of \<open>requests.post\<close> for the three request parameters).
\<close>

record world =
  secrets :: "ustr \<rightharpoonup> ustr"
  ocr_post :: "ustr \<Rightarrow> bytes \<Rightarrow> exn + ocr_response"
  pdf_reader :: "bytes \<Rightarrow> exn + (exn + ustr) list"
  roadmap_post :: "ustr \<Rightarrow> ustr \<Rightarrow> ustr \<Rightarrow> exn + roadmap_response"

text \<open>
  What a run does, in order: the calls to the outside and the Streamlit elements it
  emits. A PDF built by \<open>MarkdownPdf\<close> is the list of its sections (content, toc flag).
\<close>

type_synonym pdf = "(ustr \<times> bool) list"

record download =
  dl_label :: ustr
  dl_data :: pdf
  dl_file_name :: ustr
  dl_mime :: ustr

datatype event =
  OcrPost ustr bytes
| PdfReaderCall bytes
| RoadmapPost ustr ustr ustr
| StSpinner ustr
| StSuccess ustr
| StWarning ustr
| StError ustr
| StText ustr
| StSubheader ustr
| StExpander ustr bool
| StMarkdown roadmap_result
| StDownloadButton download

section \<open>Document text extractor\<close>

text \<open>The loop of \<open>fallback_extract_text\<close> over the pages; the first exception ends it.\<close>

fun pages_text :: "ustr \<Rightarrow> (exn + ustr) list \<Rightarrow> exn + ustr" where
  "pages_text text [] = Inr text"
| "pages_text text (p # ps) =
     (case p of Inl e \<Rightarrow> Inl e | Inr t \<Rightarrow> pages_text (text @ t) ps)"

definition fallback_extract_text :: "world \<Rightarrow> bytes \<Rightarrow> event list \<times> ustr" where
  "fallback_extract_text w pdf_file =
     (case pdf_reader w pdf_file of
        Inl e \<Rightarrow>
          ([PdfReaderCall pdf_file,
            StError (ascii ''Error in text extraction: '' @ exn_str e)], [])
      | Inr pages \<Rightarrow>
          (case pages_text [] pages of
             Inl e \<Rightarrow>
               ([PdfReaderCall pdf_file,
                 StError (ascii ''Error in text extraction: '' @ exn_str e)], [])
           | Inr text \<Rightarrow>
               ([PdfReaderCall pdf_file], str_strip (str_join [32] (str_split text)))))"

text \<open>
  The body of the \<open>try\<close> in \<open>extract_text_from_pdf\<close>: \<open>Inl\<close> when it raises
  (\<open>requests.post\<close> or \<open>response.json()\<close> raise, the body is not a mapping and has no
  \<open>get\<close>, or the \<open>text\<close> field is not a string and has no \<open>split\<close>), \<open>Inr\<close> with the
  events and the value it returns otherwise.
\<close>

definition extract_try :: "world \<Rightarrow> ustr \<Rightarrow> bytes \<Rightarrow> exn + event list \<times> ustr" where
  "extract_try w key pdf_file =
     (case ocr_post w key pdf_file of
        Inl e \<Rightarrow> Inl e
      | Inr response \<Rightarrow>
          if ocr_status_code response = 200 then
            (case ocr_json response of
               Inl e \<Rightarrow> Inl e
             | Inr (JObj kvs) \<Rightarrow>
                 (case (case map_of kvs (ascii ''text'') of None \<Rightarrow> JStr [] | Some v \<Rightarrow> v) of
                    JStr extracted_text \<Rightarrow> Inr ([], str_join [32] (str_split extracted_text))
                  | _ \<Rightarrow> Inl (Exn (ascii ''AttributeError'') (ascii ''split'')))
             | Inr _ \<Rightarrow> Inl (Exn (ascii ''AttributeError'') (ascii ''get'')))
          else Inr (fallback_extract_text w pdf_file))"

text \<open>
  \<open>extract_text_from_pdf\<close>. The headers are built before the \<open>try\<close>:
  \<open>st.secrets["RAPIDAPI_KEY"]\<close> raises \<open>KeyError\<close> when the key is not configured.
\<close>

definition extract_text_from_pdf :: "world \<Rightarrow> bytes \<Rightarrow> event list \<times> (exn + ustr)" where
  "extract_text_from_pdf w pdf_file =
     (case secrets w (ascii ''RAPIDAPI_KEY'') of
        None \<Rightarrow> ([], Inl (Exn (ascii ''KeyError'') (ascii ''RAPIDAPI_KEY'')))
      | Some key \<Rightarrow>
          (case extract_try w key pdf_file of
             Inl e \<Rightarrow>
               (let (evs, text) = fallback_extract_text w pdf_file
                in (OcrPost key pdf_file
                      # StWarning (ascii ''Using fallback PDF extraction method'') # evs,
                    Inr text))
           | Inr (evs, text) \<Rightarrow> (OcrPost key pdf_file # evs, Inr text)))"

text \<open>The property of an extracted text: single spaces only, none at either end.\<close>

fun no_double_space :: "ustr \<Rightarrow> bool" where
  "no_double_space [] = True"
| "no_double_space [c] = True"
| "no_double_space (c # d # cs) = (\<not> (isspace c \<and> isspace d) \<and> no_double_space (d # cs))"

definition no_outer_space :: "ustr \<Rightarrow> bool" where
  "no_outer_space s = (case s of [] \<Rightarrow> True | c # cs \<Rightarrow> \<not> isspace c \<and> \<not> isspace (last s))"

definition single_line :: "ustr \<Rightarrow> bool" where
  "single_line s \<longleftrightarrow> no_double_space s \<and> no_outer_space s"

section \<open>Roadmap request client\<close>

text \<open>The options of the visa type select box and the strings it returns.\<close>

datatype visa_type = Immigration_Visa | Study_Visa | Travel_Visa | Work_Visa

fun label :: "visa_type \<Rightarrow> ustr" where
  "label Immigration_Visa = ascii ''Immigration Visa''"
| "label Study_Visa = ascii ''Study Visa''"
| "label Travel_Visa = ascii ''Travel Visa''"
| "label Work_Visa = ascii ''Work Visa''"

text \<open>
  \<open>call_visa_roadmap_api\<close>: the events and the returned value. The 404 branch has no
  \<open>return\<close> and falls off the end of the function, which returns \<open>None\<close>.
\<close>

definition call_visa_roadmap_api ::
  "world \<Rightarrow> ustr \<Rightarrow> ustr \<Rightarrow> ustr \<Rightarrow> event list \<times> roadmap_result" where
  "call_visa_roadmap_api w text roadmap_type additional_information =
     (case roadmap_post w text roadmap_type additional_information of
        Inl e \<Rightarrow>
          ([RoadmapPost text roadmap_type additional_information,
            StError (ascii ''API Error: '' @ exn_str e)], RNone)
      | Inr response \<Rightarrow>
          if status_code response = 200 then
            (case json_body response of
               Inl e \<Rightarrow>
                 ([RoadmapPost text roadmap_type additional_information,
                   StError (ascii ''API Error: '' @ exn_str e)], RNone)
             | Inr result \<Rightarrow>
                 ([RoadmapPost text roadmap_type additional_information], result))
          else if status_code response = 404 then
            ([RoadmapPost text roadmap_type additional_information,
              StError (ascii ''API Error: Data Not Found ('' @ str_int (status_code response)
                       @ ascii '')'')], RNone)
          else
            ([RoadmapPost text roadmap_type additional_information,
              StError (ascii ''API Error: '' @ str_int (status_code response))], RNone))"

section \<open>Report renderer\<close>

text \<open>\<open>data.get(key, default)\<close> on a field of the mapping.\<close>

definition get_default :: "'a option \<Rightarrow> 'a \<Rightarrow> 'a" where
  "get_default field dflt = (case field of None \<Rightarrow> dflt | Some v \<Rightarrow> v)"

text \<open>\<open>data[key]\<close> on a field of the mapping: \<open>KeyError\<close> when the key is missing.\<close>

definition getitem :: "string \<Rightarrow> 'a option \<Rightarrow> exn + 'a" where
  "getitem key field =
     (case field of
        None \<Rightarrow> Inl (Exn (ascii ''KeyError'') ([39] @ ascii key @ [39]))
      | Some v \<Rightarrow> Inr v)"

text \<open>The separator literal of line 113 of the source: U+00E2 followed by U+2014.\<close>

definition bullet_marker :: ustr where
  "bullet_marker = [226, 8212]"

text \<open>The list \<open>markdown_content\<close> that \<open>convert_dict_to_markdown\<close> builds, entry by entry.\<close>

definition markdown_content :: "immigration_dict \<Rightarrow> ustr list" where
  "markdown_content data =
     [ascii ''# Immigration Profile Report'' @ [10],
      ascii ''## 1. Questionnaire and Response:'' @ [10]]
     @ map (\<lambda>line. ascii ''- '' @ str_strip line @ [10])
         (filter (\<lambda>line. str_strip line \<noteq> [])
            (split_on bullet_marker [] (get_default (questionnaire data) [])))
     @ [ascii ''## 2. Job Roles Based on Education and Work Experience:'' @ [10],
        get_default (job_roles data) [] @ [10],
        ascii ''## 3. NOC Codes:'' @ [10]]
     @ map (\<lambda>noc. ascii ''- '' @ str_strip noc @ [10]) (get_default (noc_codes data) [])
     @ [ascii ''## 4. CRS Score Breakdown:'' @ [10],
        get_default (crs_score data) [] @ [10],
        ascii ''## 5. Roadmap for Canada Immigration:'' @ [10],
        get_default (roadmap data) [] @ [10]]"

definition convert_dict_to_markdown :: "immigration_dict \<Rightarrow> ustr" where
  "convert_dict_to_markdown data = str_join [10] (markdown_content data)"

text \<open>
  \<open>create_pdf_content\<close>; it reads the global \<open>roadmap_type\<close>, a parameter here. The
  f-string formats \<open>None\<close> as the text \<open>None\<close>.
\<close>

fun create_pdf_content :: "ustr \<Rightarrow> roadmap_result \<Rightarrow> ustr" where
  "create_pdf_content roadmap_type (RDict data) =
     str_join [10] [ascii ''# Immigration Roadmap'' @ [10], get_default (roadmap data) [] @ [10]]"
| "create_pdf_content roadmap_type (RStr data) =
     ascii ''# '' @ roadmap_type @ ascii '' Roadmap'' @ [10, 10] @ data"
| "create_pdf_content roadmap_type RNone =
     ascii ''# '' @ roadmap_type @ ascii '' Roadmap'' @ [10, 10] @ ascii ''None''"

text \<open>The truth value of a result in \<open>if result:\<close>.\<close>

fun truthy :: "roadmap_result \<Rightarrow> bool" where
  "truthy RNone = False"
| "truthy (RStr s) = (s \<noteq> [])"
| "truthy (RDict d) =
     (questionnaire d \<noteq> None \<or> job_roles d \<noteq> None \<or> noc_codes d \<noteq> None \<or>
      crs_score d \<noteq> None \<or> roadmap d \<noteq> None \<or> other_keys d \<noteq> [])"

section \<open>Interaction controller\<close>

text \<open>
  A block of the script yields the events it emitted and, when an exception left it
  uncaught, that exception.
\<close>

type_synonym run = "event list \<times> exn option"

text \<open>
  Lines 189 to 217: the display and the download of the Immigration case, for a result
  that is a mapping. Each expander is opened before the field it shows is read.
\<close>

definition show_immigration :: "ustr \<Rightarrow> immigration_dict \<Rightarrow> run" where
  "show_immigration roadmap_type result =
     (let ev0 = [StSubheader (ascii ''Your Immigration Roadmap''),
                 StExpander (ascii ''Roadmap'') True]
      in case getitem ''roadmap'' (roadmap result) of
           Inl e \<Rightarrow> (ev0, Some e)
         | Inr rm \<Rightarrow>
      (let ev1 = ev0 @ [StMarkdown (RStr rm), StExpander (ascii ''CRS Score Details'') False]
       in case getitem ''crs_score'' (crs_score result) of
            Inl e \<Rightarrow> (ev1, Some e)
          | Inr crs \<Rightarrow>
      (let ev2 = ev1 @ [StMarkdown (RStr crs), StExpander (ascii ''Eligible Job Roles'') False]
       in case getitem ''job_roles'' (job_roles result) of
            Inl e \<Rightarrow> (ev2, Some e)
          | Inr jr \<Rightarrow>
      (let ev3 = ev2 @ [StMarkdown (RStr jr), StExpander (ascii ''NOC Codes'') False]
       in case getitem ''noc_codes'' (noc_codes result) of
            Inl e \<Rightarrow> (ev3, Some e)
          | Inr nocs \<Rightarrow>
              (ev3
               @ concat (map (\<lambda>noc. [StMarkdown (RStr noc), StMarkdown (RStr (ascii ''---''))]) nocs)
               @ [StDownloadButton
                    \<lparr>dl_label = ascii ''Download Roadmap as PDF'',
                     dl_data = [(create_pdf_content roadmap_type (RDict result), False)],
                     dl_file_name = ascii ''immigration_roadmap.pdf'',
                     dl_mime = ascii ''application/pdf''\<rparr>],
               None)))))"

text \<open>
  The body of \<open>if st.button("Generate")\<close> in the Immigration case (lines 184 to 217).
  A result that is a string cannot be indexed by \<open>"roadmap"\<close>: \<open>TypeError\<close>.
\<close>

definition generate_immigration :: "world \<Rightarrow> ustr \<Rightarrow> ustr \<Rightarrow> ustr \<Rightarrow> run" where
  "generate_immigration w extracted_text roadmap_type additional_info =
     (let (evs, result) = call_visa_roadmap_api w extracted_text roadmap_type additional_info
      in if truthy result then
           (case result of
              RDict d \<Rightarrow>
                (let (evs', r) = show_immigration roadmap_type d
                 in (StSpinner (ascii ''Processing...'') # evs @ evs', r))
            | _ \<Rightarrow>
                (StSpinner (ascii ''Processing...'') # evs
                 @ [StSubheader (ascii ''Your Immigration Roadmap''),
                    StExpander (ascii ''Roadmap'') True],
                 Some (Exn (ascii ''TypeError'') (ascii ''string indices must be integers''))))
         else (StSpinner (ascii ''Processing...'') # evs, None))"

text \<open>The body of \<open>if st.button("Generate")\<close> in the other cases (lines 230 to 251).\<close>

definition generate_other :: "world \<Rightarrow> ustr \<Rightarrow> ustr \<Rightarrow> ustr \<Rightarrow> run" where
  "generate_other w extracted_text roadmap_type additional_info =
     (let (evs, result) = call_visa_roadmap_api w extracted_text roadmap_type additional_info
      in if truthy result then
           (StSpinner (ascii ''Processing...'') # evs
            @ [StSubheader (ascii ''Your '' @ roadmap_type @ ascii '' Roadmap''),
               StExpander (ascii ''Roadmap'') True,
               StMarkdown result,
               StDownloadButton
                 \<lparr>dl_label = ascii ''Download Roadmap as PDF'',
                  dl_data = [(create_pdf_content roadmap_type result, False)],
                  dl_file_name = str_lower roadmap_type @ ascii ''_roadmap.pdf'',
                  dl_mime = ascii ''application/pdf''\<rparr>],
            None)
         else (StSpinner (ascii ''Processing...'') # evs, None))"

text \<open>
  The preview of lines 178 to 181 (and 224 to 227): nothing for an empty text, else the
  first 500 characters, with an ellipsis when the text is longer.
\<close>

definition preview :: "ustr \<Rightarrow> event list" where
  "preview extracted_text =
     (if extracted_text \<noteq> [] then
        [StSuccess (ascii ''PDF text extracted successfully!''),
         StExpander (ascii ''Preview extracted text'') False,
         StText (if length extracted_text > 500 then take 500 extracted_text @ ascii ''...''
                 else extracted_text)]
      else [])"

text \<open>
  One of the two handler blocks (lines 175 to 217, or 221 to 251): extraction, preview,
  and the Generate button, which is \<open>True\<close> in the run that follows a click.
\<close>

definition handler :: "bool \<Rightarrow> world \<Rightarrow> ustr \<Rightarrow> ustr \<Rightarrow> bytes \<Rightarrow> bool \<Rightarrow> run" where
  "handler immigration w roadmap_type additional_info uploaded_file generate =
     (case extract_text_from_pdf w uploaded_file of
        (evs, Inl e) \<Rightarrow> (StSpinner (ascii ''Extracting text from PDF...'') # evs, Some e)
      | (evs, Inr extracted_text) \<Rightarrow>
          (let before = StSpinner (ascii ''Extracting text from PDF...'') # evs
                        @ preview extracted_text
           in if generate then
                (let (evs', r) =
                       (if immigration
                        then generate_immigration w extracted_text roadmap_type additional_info
                        else generate_other w extracted_text roadmap_type additional_info)
                 in (before @ evs', r))
              else (before, None)))"

text \<open>
  The script from the secret check on (lines 155 to 251). The select box yields \<open>None\<close>
  or one of its options, the file uploader \<open>None\<close> or the uploaded file. Page title,
  input widgets and sidebar emit nothing that depends on the run and are left out.
\<close>

definition script :: "world \<Rightarrow> visa_type option \<Rightarrow> ustr \<Rightarrow> bytes option \<Rightarrow> bool \<Rightarrow> run" where
  "script w roadmap_type additional_info uploaded_file generate =
     (if secrets w (ascii ''RAPIDAPI_KEY'') = None then
        ([StError (ascii ''Please configure your RapidAPI key in .streamlit/secrets.toml'')],
         None)
      else
        (case (roadmap_type, uploaded_file) of
           (Some vt, Some f) \<Rightarrow>
             handler (vt = Immigration_Visa) w (label vt) additional_info f generate
         | _ \<Rightarrow> ([], None)))"

text \<open>The display sections, downloads and file names in a list of events.\<close>

fun is_section :: "event \<Rightarrow> bool" where
  "is_section (StSubheader _) = True"
| "is_section (StExpander _ _) = True"
| "is_section (StMarkdown _) = True"
| "is_section _ = False"

fun downloads :: "event list \<Rightarrow> download list" where
  "downloads [] = []"
| "downloads (StDownloadButton d # evs) = d # downloads evs"
| "downloads (_ # evs) = downloads evs"

fun warnings :: "event list \<Rightarrow> ustr list" where
  "warnings [] = []"
| "warnings (StWarning m # evs) = m # warnings evs"
| "warnings (_ # evs) = warnings evs"

fun errors :: "event list \<Rightarrow> ustr list" where
  "errors [] = []"
| "errors (StError m # evs) = m # errors evs"
| "errors (_ # evs) = errors evs"

fun expanders :: "event list \<Rightarrow> ustr list" where
  "expanders [] = []"
| "expanders (StExpander l _ # evs) = l # expanders evs"
| "expanders (_ # evs) = expanders evs"

text \<open>A non-empty text with single spaces only and none at either end.\<close>

definition tight :: "ustr \<Rightarrow> bool" where
  "tight s \<longleftrightarrow> s \<noteq> [] \<and> \<not> isspace (hd s) \<and> \<not> isspace (last s) \<and> no_double_space s"

text \<open>
  A document of labeled sections, as a list of entries: each section is its label
  followed by the entries of its content.
\<close>

definition labeled_sections :: "(ustr \<times> ustr list) list \<Rightarrow> ustr list" where
  "labeled_sections secs = concat (map (\<lambda>(l, content). l # content) secs)"

text \<open>
  Example worlds: the key is configured, and the three services answer the same
  whatever they are asked.
\<close>

definition example_world ::
  "exn + ocr_response \<Rightarrow> exn + (exn + ustr) list \<Rightarrow> exn + roadmap_response \<Rightarrow> world" where
  "example_world ocr pages answer =
     \<lparr>secrets = [ascii ''RAPIDAPI_KEY'' \<mapsto> ascii ''k''],
      ocr_post = (\<lambda>key b. ocr),
      pdf_reader = (\<lambda>b. pages),
      roadmap_post = (\<lambda>t rt ai. answer)\<rparr>"

definition ocr_ok :: "ustr \<Rightarrow> exn + ocr_response" where
  "ocr_ok text = Inr \<lparr>ocr_status_code = 200, ocr_json = Inr (JObj [(ascii ''text'', JStr text)])\<rparr>"

definition ocr_status :: "int \<Rightarrow> exn + ocr_response" where
  "ocr_status code = Inr \<lparr>ocr_status_code = code, ocr_json = Inr (JObj [])\<rparr>"

definition answer_ok :: "roadmap_result \<Rightarrow> exn + roadmap_response" where
  "answer_ok result = Inr \<lparr>status_code = 200, json_body = Inr result\<rparr>"

definition answer_status :: "int \<Rightarrow> exn + roadmap_response" where
  "answer_status code = Inr \<lparr>status_code = code, json_body = Inr RNone\<rparr>"

text \<open>
  The scenario of the Work case: the OCR service reads \<open>age 29 job developer\<close> and the
  roadmap service answers with the plain string \<open>Apply via Express Entry...\<close>.
\<close>

definition work_world :: world where
  "work_world = example_world (ocr_ok (ascii ''age 29 job developer'')) (Inr [])
                  (answer_ok (RStr (ascii ''Apply via Express Entry...'')))"

text \<open>
  Two Immigration results: a complete mapping, and a mapping with none of the five
  fields (and one key the program does not read).
\<close>

definition sample_dict :: immigration_dict where
  "sample_dict =
     \<lparr>questionnaire = Some ([226, 8212] @ ascii '' Age: 29 '' @ [226, 8212] @ ascii '' Job: developer''),
      job_roles = Some (ascii ''Software developer''),
      noc_codes = Some [ascii '' 21232 ''],
      crs_score = Some (ascii ''450''),
      roadmap = Some (ascii ''Apply via Express Entry''),
      other_keys = []\<rparr>"

definition empty_fields :: immigration_dict where
  "empty_fields =
     \<lparr>questionnaire = None, job_roles = None, noc_codes = None, crs_score = None,
      roadmap = None, other_keys = [ascii ''status'']\<rparr>"

section \<open>Whitespace normalisation\<close>

lemma isspace_32: "isspace 32"
  by (simp add: isspace_def)

lemma split_run_tokens:
  "\<forall>c\<in>set cur. \<not> isspace c \<Longrightarrow> t \<in> set (split_run cur s) \<Longrightarrow>
     t \<noteq> [] \<and> (\<forall>c\<in>set t. \<not> isspace c)"
proof (induction s arbitrary: cur)
  case Nil
  then show ?case by (auto split: if_splits)
next
  case (Cons c cs)
  show ?case
  proof (cases "isspace c")
    case True
    with Cons.prems Cons.IH [of "[]"] show ?thesis
      by (auto split: if_splits)
  next
    case False
    with Cons.prems Cons.IH [of "cur @ [c]"] show ?thesis
      by auto
  qed
qed

lemma str_split_tokens:
  "t \<in> set (str_split s) \<Longrightarrow> t \<noteq> [] \<and> (\<forall>c\<in>set t. \<not> isspace c)"
  unfolding str_split_def using split_run_tokens [of "[]" t s] by simp

lemma no_double_space_append:
  "x \<noteq> [] \<Longrightarrow> \<forall>c\<in>set x. \<not> isspace c \<Longrightarrow> no_double_space (x @ y) = no_double_space y"
proof (induction x)
  case Nil
  then show ?case by simp
next
  case (Cons c x)
  show ?case
  proof (cases x)
    case Nil
    with Cons.prems show ?thesis by (cases y) auto
  next
    case (Cons d x')
    with Cons.prems Cons.IH show ?thesis by auto
  qed
qed

lemma no_double_space_free: "\<forall>c\<in>set x. \<not> isspace c \<Longrightarrow> no_double_space x"
  using no_double_space_append [of x "[]"] by (cases x) auto

lemma tight_token: "t \<noteq> [] \<Longrightarrow> \<forall>c\<in>set t. \<not> isspace c \<Longrightarrow> tight t"
  by (simp add: tight_def no_double_space_free)

lemma tight_join:
  "ts \<noteq> [] \<Longrightarrow> \<forall>t\<in>set ts. t \<noteq> [] \<and> (\<forall>c\<in>set t. \<not> isspace c) \<Longrightarrow> tight (str_join [32] ts)"
proof (induction "[32::nat]" ts rule: str_join.induct)
  case 1
  then show ?case by simp
next
  case (2 x)
  then show ?case by (simp add: tight_token)
next
  case (3 x y ys)
  then have t: "tight (str_join [32] (y # ys))" by simp
  from 3 have x: "x \<noteq> []" "\<forall>c\<in>set x. \<not> isspace c" by auto
  obtain d r where r: "str_join [32] (y # ys) = d # r" using t by (auto simp: tight_def neq_Nil_conv)
  with t have d: "\<not> isspace d" by (simp add: tight_def)
  have "no_double_space (x @ 32 # d # r)"
    using no_double_space_append [OF x, of "32 # d # r"] t r d by (simp add: tight_def)
  moreover have "\<not> isspace (hd (x @ 32 # d # r))" using x by (cases x) auto
  moreover have "\<not> isspace (last (x @ 32 # d # r))" using t r by (simp add: tight_def)
  ultimately show ?case using r by (simp add: tight_def)
qed

lemma single_line_join_split: "single_line (str_join [32] (str_split s))"
proof (cases "str_split s = []")
  case True
  then show ?thesis by (simp add: single_line_def no_outer_space_def)
next
  case False
  then have "tight (str_join [32] (str_split s))"
    using tight_join [of "str_split s"] str_split_tokens by blast
  then show ?thesis
    by (auto simp: tight_def single_line_def no_outer_space_def split: list.splits)
qed

lemma str_strip_id: "no_outer_space s \<Longrightarrow> str_strip s = s"
proof (cases s)
  case Nil
  then show ?thesis by (simp add: str_strip_def)
next
  case (Cons c cs)
  assume "no_outer_space s"
  with Cons have c: "\<not> isspace c" and l: "\<not> isspace (last s)"
    by (simp_all add: no_outer_space_def)
  from Cons have "s = butlast s @ [last s]" by simp
  then have "rev s = rev (butlast s @ [last s])" by simp
  then have r: "rev s = last s # rev (butlast s)" by simp
  from c Cons have "dropWhile isspace s = s" by simp
  moreover have "dropWhile isspace (last s # rev (butlast s)) = last s # rev (butlast s)"
    using l by simp
  then have "dropWhile isspace (rev s) = rev s" by (simp only: r)
  ultimately show ?thesis by (simp only: str_strip_def rev_rev_ident)
qed

lemma str_strip_join_split:
  "str_strip (str_join [32] (str_split s)) = str_join [32] (str_split s)"
  using single_line_join_split [of s] by (simp add: single_line_def str_strip_id)

section \<open>Properties of the document text extractor\<close>

lemma single_line_Nil: "single_line []"
  by (simp add: single_line_def no_outer_space_def)

lemma fallback_single_line: "single_line (snd (fallback_extract_text w pdf_file))"
  by (simp add: fallback_extract_text_def str_strip_join_split single_line_join_split
      single_line_Nil split: sum.splits)

lemma extract_try_single_line: "extract_try w key pdf_file = Inr (evs, text) \<Longrightarrow> single_line text"
  using fallback_single_line [of w pdf_file] single_line_join_split
  by (auto simp: extract_try_def split: sum.splits if_splits json.splits option.splits)

text \<open>
  C4. Whatever the world and the document, a text that \<open>extract_text_from_pdf\<close> returns,
  by the OCR path or by the fallback, has no two consecutive whitespace characters and no
  whitespace at its start or end.
\<close>

theorem extract_single_line:
  "snd (extract_text_from_pdf w pdf_file) = Inr text \<Longrightarrow> single_line text"
  using fallback_single_line [of w pdf_file] extract_try_single_line [of w _ pdf_file]
  by (auto simp: extract_text_from_pdf_def split: option.splits sum.splits prod.splits)

theorem extract_single_line_witness:
  "snd (extract_text_from_pdf
          (example_world (ocr_ok (ascii ''  age 29   job developer '')) (Inr []) (answer_status 404))
          [1, 2, 3]) = Inr (ascii ''age 29 job developer'')
   \<and> single_line (ascii ''age 29 job developer'')"
proof -
  have h: "snd (extract_text_from_pdf
          (example_world (ocr_ok (ascii ''  age 29   job developer '')) (Inr []) (answer_status 404))
          [1, 2, 3]) = Inr (ascii ''age 29 job developer'')"
    by (simp add: extract_text_from_pdf_def extract_try_def example_world_def ocr_ok_def
        str_split_def isspace_def ascii_def)
  show ?thesis using h extract_single_line [OF h] by simp
qed

subsection \<open>The fallback\<close>

lemma fallback_events:
  "PdfReaderCall pdf_file \<in> set (fst (fallback_extract_text w pdf_file))"
  by (simp add: fallback_extract_text_def split: sum.splits)

lemma extract_exception:
  "secrets w (ascii ''RAPIDAPI_KEY'') = Some key \<Longrightarrow> extract_try w key pdf_file = Inl e \<Longrightarrow>
   extract_text_from_pdf w pdf_file =
     (OcrPost key pdf_file # StWarning (ascii ''Using fallback PDF extraction method'')
        # fst (fallback_extract_text w pdf_file),
      Inr (snd (fallback_extract_text w pdf_file)))"
  by (simp add: extract_text_from_pdf_def split: prod.splits)

lemma extract_not_200:
  "secrets w (ascii ''RAPIDAPI_KEY'') = Some key \<Longrightarrow> ocr_post w key pdf_file = Inr r \<Longrightarrow>
   ocr_status_code r \<noteq> 200 \<Longrightarrow>
   extract_text_from_pdf w pdf_file =
     (OcrPost key pdf_file # fst (fallback_extract_text w pdf_file),
      Inr (snd (fallback_extract_text w pdf_file)))"
  by (simp add: extract_text_from_pdf_def extract_try_def split: prod.splits)

lemma extract_try_post_raises:
  "ocr_post w key pdf_file = Inl e \<Longrightarrow> extract_try w key pdf_file = Inl e"
  by (simp add: extract_try_def)

lemma extract_200_text:
  "secrets w (ascii ''RAPIDAPI_KEY'') = Some key \<Longrightarrow> ocr_post w key pdf_file = Inr r \<Longrightarrow>
   ocr_status_code r = 200 \<Longrightarrow> ocr_json r = Inr (JObj kvs) \<Longrightarrow>
   (case map_of kvs (ascii ''text'') of None \<Rightarrow> JStr [] | Some v \<Rightarrow> v) = JStr s \<Longrightarrow>
   extract_text_from_pdf w pdf_file = ([OcrPost key pdf_file], Inr (str_join [32] (str_split s)))"
  by (simp add: extract_text_from_pdf_def extract_try_def)

lemma fallback_text:
  "pdf_reader w pdf_file = Inr pages \<Longrightarrow> pages_text [] pages = Inr text \<Longrightarrow>
   fallback_extract_text w pdf_file = ([PdfReaderCall pdf_file], str_join [32] (str_split text))"
  by (simp add: fallback_extract_text_def str_strip_join_split)

lemma fallback_raises:
  "pdf_reader w pdf_file = Inl e \<or> (\<exists>pages. pdf_reader w pdf_file = Inr pages \<and> pages_text [] pages = Inl e) \<Longrightarrow>
   fallback_extract_text w pdf_file =
     ([PdfReaderCall pdf_file, StError (ascii ''Error in text extraction: '' @ exn_str e)], [])"
  by (auto simp: fallback_extract_text_def)

text \<open>
  C6. When the OCR request raises or answers with a status other than 200, PyPDF2 is
  called on the same document and the extractor returns what \<open>fallback_extract_text\<close>
  returns: the text of the pages joined by single spaces after splitting at whitespace.
  The last part states the OCR path next to it: the text field of a 200 answer goes
  through the same split and join.
\<close>

theorem fallback_invoked:
  assumes key: "secrets w (ascii ''RAPIDAPI_KEY'') = Some key"
    and fail: "(\<exists>e. ocr_post w key pdf_file = Inl e) \<or>
               (\<exists>r. ocr_post w key pdf_file = Inr r \<and> ocr_status_code r \<noteq> 200)"
  shows "PdfReaderCall pdf_file \<in> set (fst (extract_text_from_pdf w pdf_file))
       \<and> snd (extract_text_from_pdf w pdf_file) = Inr (snd (fallback_extract_text w pdf_file))
       \<and> (\<forall>pages text. pdf_reader w pdf_file = Inr pages \<and> pages_text [] pages = Inr text \<longrightarrow>
            snd (extract_text_from_pdf w pdf_file) = Inr (str_join [32] (str_split text)))
       \<and> (\<forall>w' r kvs text. secrets w' (ascii ''RAPIDAPI_KEY'') = Some key \<and>
            ocr_post w' key pdf_file = Inr r \<and> ocr_status_code r = 200 \<and>
            ocr_json r = Inr (JObj kvs) \<and> map_of kvs (ascii ''text'') = Some (JStr text) \<longrightarrow>
            snd (extract_text_from_pdf w' pdf_file) = Inr (str_join [32] (str_split text)))"
proof -
  have primary: "\<forall>w' r kvs text. secrets w' (ascii ''RAPIDAPI_KEY'') = Some key \<and>
            ocr_post w' key pdf_file = Inr r \<and> ocr_status_code r = 200 \<and>
            ocr_json r = Inr (JObj kvs) \<and> map_of kvs (ascii ''text'') = Some (JStr text) \<longrightarrow>
            snd (extract_text_from_pdf w' pdf_file) = Inr (str_join [32] (str_split text))"
    by (simp add: extract_200_text)
  from fail show ?thesis
  proof
    assume "\<exists>e. ocr_post w key pdf_file = Inl e"
    then obtain e where "extract_try w key pdf_file = Inl e"
      using extract_try_post_raises by blast
    from extract_exception [OF key this] primary show ?thesis
      using fallback_events [of pdf_file w] by (auto simp: fallback_text)
  next
    assume "\<exists>r. ocr_post w key pdf_file = Inr r \<and> ocr_status_code r \<noteq> 200"
    then obtain r where "ocr_post w key pdf_file = Inr r" "ocr_status_code r \<noteq> 200" by blast
    from extract_not_200 [OF key this] primary show ?thesis
      using fallback_events [of pdf_file w] by (auto simp: fallback_text)
  qed
qed

theorem fallback_invoked_witness:
  "PdfReaderCall [7] \<in> set (fst (extract_text_from_pdf
      (example_world (ocr_status 500) (Inr [Inr (ascii '' a  b''), Inr (ascii ''c '')]) (answer_status 404)) [7]))
   \<and> snd (extract_text_from_pdf
      (example_world (ocr_status 500) (Inr [Inr (ascii '' a  b''), Inr (ascii ''c '')]) (answer_status 404)) [7])
     = Inr (str_join [32] (str_split (ascii '' a  bc '')))
   \<and> snd (extract_text_from_pdf
      (example_world (ocr_ok (ascii '' a  bc '')) (Inr []) (answer_status 404)) [7])
     = Inr (str_join [32] (str_split (ascii '' a  bc '')))"
  using fallback_invoked [of "example_world (ocr_status 500) (Inr [Inr (ascii '' a  b''), Inr (ascii ''c '')]) (answer_status 404)"
      "ascii ''k''" "[7]"]
  by (simp add: example_world_def ocr_status_def ocr_ok_def ascii_def extract_text_from_pdf_def
      extract_try_def fallback_extract_text_def str_strip_def str_split_def isspace_def)

lemma extract_returns:
  "secrets w (ascii ''RAPIDAPI_KEY'') = Some key \<Longrightarrow>
   \<exists>evs text. extract_text_from_pdf w pdf_file = (evs, Inr text)"
  by (simp add: extract_text_from_pdf_def split: sum.splits prod.splits)

lemma script_stops:
  "secrets w (ascii ''RAPIDAPI_KEY'') = None \<Longrightarrow>
   script w roadmap_type additional_info uploaded_file generate =
     ([StError (ascii ''Please configure your RapidAPI key in .streamlit/secrets.toml'')], None)"
  by (simp add: script_def)

text \<open>
  C7. The extractor never fails outwardly. Without the configured key the script stops
  before any extraction; with it, \<open>extract_text_from_pdf\<close> returns a string for every
  document, and when the OCR path fails and the fallback raises \<open>e\<close>, the string is
  empty and the error message for \<open>e\<close> is shown.
\<close>

theorem extract_never_fails:
  "(secrets w (ascii ''RAPIDAPI_KEY'') = None \<longrightarrow>
      script w roadmap_type additional_info uploaded_file generate =
        ([StError (ascii ''Please configure your RapidAPI key in .streamlit/secrets.toml'')], None))
   \<and> (\<forall>key. secrets w (ascii ''RAPIDAPI_KEY'') = Some key \<longrightarrow>
        (\<exists>evs text. extract_text_from_pdf w pdf_file = (evs, Inr text))
        \<and> (\<forall>e. ((\<exists>e'. extract_try w key pdf_file = Inl e') \<or>
                 (\<exists>r. ocr_post w key pdf_file = Inr r \<and> ocr_status_code r \<noteq> 200))
                \<and> (pdf_reader w pdf_file = Inl e \<or>
                   (\<exists>pages. pdf_reader w pdf_file = Inr pages \<and> pages_text [] pages = Inl e))
              \<longrightarrow> snd (extract_text_from_pdf w pdf_file) = Inr []
                \<and> StError (ascii ''Error in text extraction: '' @ exn_str e)
                    \<in> set (fst (extract_text_from_pdf w pdf_file))))"
proof (intro conjI allI impI)
  assume "secrets w (ascii ''RAPIDAPI_KEY'') = None"
  then show "script w roadmap_type additional_info uploaded_file generate =
        ([StError (ascii ''Please configure your RapidAPI key in .streamlit/secrets.toml'')], None)"
    by (rule script_stops)
next
  fix key assume "secrets w (ascii ''RAPIDAPI_KEY'') = Some key"
  then show "\<exists>evs text. extract_text_from_pdf w pdf_file = (evs, Inr text)"
    by (rule extract_returns)
next
  fix key e
  assume key: "secrets w (ascii ''RAPIDAPI_KEY'') = Some key"
    and both: "((\<exists>e'. extract_try w key pdf_file = Inl e') \<or>
                 (\<exists>r. ocr_post w key pdf_file = Inr r \<and> ocr_status_code r \<noteq> 200))
                \<and> (pdf_reader w pdf_file = Inl e \<or>
                   (\<exists>pages. pdf_reader w pdf_file = Inr pages \<and> pages_text [] pages = Inl e))"
  then have fb: "fallback_extract_text w pdf_file =
     ([PdfReaderCall pdf_file, StError (ascii ''Error in text extraction: '' @ exn_str e)], [])"
    using fallback_raises [of w pdf_file e] by blast
  from both have "(\<exists>e'. extract_try w key pdf_file = Inl e') \<or>
                 (\<exists>r. ocr_post w key pdf_file = Inr r \<and> ocr_status_code r \<noteq> 200)" by blast
  then have shape: "extract_text_from_pdf w pdf_file =
     (OcrPost key pdf_file # StWarning (ascii ''Using fallback PDF extraction method'')
        # fst (fallback_extract_text w pdf_file),
      Inr (snd (fallback_extract_text w pdf_file)))
    \<or> extract_text_from_pdf w pdf_file =
     (OcrPost key pdf_file # fst (fallback_extract_text w pdf_file),
      Inr (snd (fallback_extract_text w pdf_file)))"
    using extract_exception [OF key] extract_not_200 [OF key] by blast
  with fb show "snd (extract_text_from_pdf w pdf_file) = Inr []"
    by auto
  from shape fb show "StError (ascii ''Error in text extraction: '' @ exn_str e)
                    \<in> set (fst (extract_text_from_pdf w pdf_file))"
    by auto
qed

theorem extract_never_fails_witness:
  "script (example_world (ocr_status 500) (Inl (Exn (ascii ''PdfReadError'') (ascii ''EOF marker not found''))) (answer_status 404)
            \<lparr>secrets := Map.empty\<rparr>) (Some Work_Visa) [] (Some [7]) True
     = ([StError (ascii ''Please configure your RapidAPI key in .streamlit/secrets.toml'')], None)
   \<and> snd (extract_text_from_pdf
        (example_world (ocr_status 500) (Inl (Exn (ascii ''PdfReadError'') (ascii ''EOF marker not found''))) (answer_status 404)) [7])
       = Inr []
   \<and> StError (ascii ''Error in text extraction: EOF marker not found'')
       \<in> set (fst (extract_text_from_pdf
        (example_world (ocr_status 500) (Inl (Exn (ascii ''PdfReadError'') (ascii ''EOF marker not found''))) (answer_status 404)) [7]))"
  using extract_never_fails [of "example_world (ocr_status 500) (Inl (Exn (ascii ''PdfReadError'') (ascii ''EOF marker not found''))) (answer_status 404)
            \<lparr>secrets := Map.empty\<rparr>" "Some Work_Visa" "[]" "Some [7]" True "[7]"]
    extract_never_fails [of "example_world (ocr_status 500) (Inl (Exn (ascii ''PdfReadError'') (ascii ''EOF marker not found''))) (answer_status 404)"
       "Some Work_Visa" "[]" "Some [7]" True "[7]"]
  by (simp add: example_world_def ocr_status_def ascii_def)

text \<open>
  C8. The OCR service answers 500 and PyPDF2 reads two pages: the extractor falls back
  and returns the normalised text of the pages, and no warning is emitted. The warning
  of line 39 belongs to the \<open>except\<close> branch only; the \<open>else\<close> branch of line 36 calls
  the fallback without it.
\<close>

theorem no_warning_on_status:
  "extract_text_from_pdf
     (example_world (ocr_status 500) (Inr [Inr (ascii '' a  b''), Inr (ascii ''c '')]) (answer_status 404))
     [1, 2, 3]
   = ([OcrPost (ascii ''k'') [1, 2, 3], PdfReaderCall [1, 2, 3]], Inr (ascii ''a bc''))
   \<and> warnings (fst (extract_text_from_pdf
     (example_world (ocr_status 500) (Inr [Inr (ascii '' a  b''), Inr (ascii ''c '')]) (answer_status 404))
     [1, 2, 3])) = []"
  by (simp add: extract_text_from_pdf_def extract_try_def fallback_extract_text_def
      example_world_def ocr_status_def str_split_def str_strip_def isspace_def ascii_def)

text \<open>
  C10. A 200 answer whose JSON object has no \<open>text\<close> field: the extractor returns the
  empty string, its only event is the OCR request, and PyPDF2 is not called.
\<close>

theorem missing_text_field:
  assumes "secrets w (ascii ''RAPIDAPI_KEY'') = Some key"
    and "ocr_post w key pdf_file = Inr r"
    and "ocr_status_code r = 200"
    and "ocr_json r = Inr (JObj kvs)"
    and "map_of kvs (ascii ''text'') = None"
  shows "extract_text_from_pdf w pdf_file = ([OcrPost key pdf_file], Inr [])
       \<and> (\<forall>b. PdfReaderCall b \<notin> set (fst (extract_text_from_pdf w pdf_file)))"
proof -
  have "(case map_of kvs (ascii ''text'') of None \<Rightarrow> JStr [] | Some v \<Rightarrow> v) = JStr []"
    by (simp only: assms(5) option.case)
  from extract_200_text [OF assms(1-4) this] show ?thesis
    by (simp add: str_split_def)
qed

theorem missing_text_field_witness:
  "extract_text_from_pdf (example_world (ocr_status 200) (Inr [Inr (ascii ''page'')]) (answer_status 404)) [7]
     = ([OcrPost (ascii ''k'') [7]], Inr [])
   \<and> (\<forall>b. PdfReaderCall b \<notin> set (fst (extract_text_from_pdf
         (example_world (ocr_status 200) (Inr [Inr (ascii ''page'')]) (answer_status 404)) [7])))"
  using missing_text_field [of "example_world (ocr_status 200) (Inr [Inr (ascii ''page'')]) (answer_status 404)"
      "ascii ''k''" "[7]" "\<lparr>ocr_status_code = 200, ocr_json = Inr (JObj [])\<rparr>" "[]"]
  by (simp add: example_world_def ocr_status_def)

section \<open>Properties of the roadmap request client and the controller\<close>

lemma str_int_404: "str_int 404 = ascii ''404''"
  by (simp add: str_int_def digits.simps ascii_def)

lemma call_ok:
  "roadmap_post w t rt ai = Inr r \<Longrightarrow> status_code r = 200 \<Longrightarrow> json_body r = Inr j \<Longrightarrow>
   call_visa_roadmap_api w t rt ai = ([RoadmapPost t rt ai], j)"
  by (simp add: call_visa_roadmap_api_def)

lemma call_bad_json:
  "roadmap_post w t rt ai = Inr r \<Longrightarrow> status_code r = 200 \<Longrightarrow> json_body r = Inl e \<Longrightarrow>
   call_visa_roadmap_api w t rt ai =
     ([RoadmapPost t rt ai, StError (ascii ''API Error: '' @ exn_str e)], RNone)"
  by (simp add: call_visa_roadmap_api_def)

lemma call_404:
  "roadmap_post w t rt ai = Inr r \<Longrightarrow> status_code r = 404 \<Longrightarrow>
   call_visa_roadmap_api w t rt ai =
     ([RoadmapPost t rt ai, StError (ascii ''API Error: Data Not Found (404)'')], RNone)"
  by (simp add: call_visa_roadmap_api_def str_int_404) (simp add: ascii_def)

lemma call_other:
  "roadmap_post w t rt ai = Inr r \<Longrightarrow> status_code r \<noteq> 200 \<Longrightarrow> status_code r \<noteq> 404 \<Longrightarrow>
   call_visa_roadmap_api w t rt ai =
     ([RoadmapPost t rt ai, StError (ascii ''API Error: '' @ str_int (status_code r))], RNone)"
  by (simp add: call_visa_roadmap_api_def)

lemma call_raises:
  "roadmap_post w t rt ai = Inl e \<Longrightarrow>
   call_visa_roadmap_api w t rt ai =
     ([RoadmapPost t rt ai, StError (ascii ''API Error: '' @ exn_str e)], RNone)"
  by (simp add: call_visa_roadmap_api_def)

lemma call_errors:
  "errors (fst (call_visa_roadmap_api w t rt ai)) = [] \<longleftrightarrow>
     (\<exists>r j. roadmap_post w t rt ai = Inr r \<and> status_code r = 200 \<and> json_body r = Inr j)"
  by (auto simp: call_visa_roadmap_api_def split: sum.splits)

text \<open>
  C5. \<open>call_visa_roadmap_api\<close> by cases. A 200 answer whose body parses is returned as
  it is, with no error shown. A 404 answer shows the data-not-found error, any other
  status the error with its code, and an exception (raised by the request, or by
  \<open>response.json()\<close> on a 200 answer) its message; each of these returns \<open>None\<close>. No
  error is shown exactly when the status is 200 and the body was parsed.
\<close>
theorem call_visa_roadmap_api_cases:
  "(\<forall>r j. roadmap_post w t rt ai = Inr r \<and> status_code r = 200 \<and> json_body r = Inr j \<longrightarrow>
      call_visa_roadmap_api w t rt ai = ([RoadmapPost t rt ai], j))
   \<and> (\<forall>r. roadmap_post w t rt ai = Inr r \<and> status_code r = 404 \<longrightarrow>
      call_visa_roadmap_api w t rt ai =
        ([RoadmapPost t rt ai, StError (ascii ''API Error: Data Not Found (404)'')], RNone))
   \<and> (\<forall>r. roadmap_post w t rt ai = Inr r \<and> status_code r \<noteq> 200 \<and> status_code r \<noteq> 404 \<longrightarrow>
      call_visa_roadmap_api w t rt ai =
        ([RoadmapPost t rt ai, StError (ascii ''API Error: '' @ str_int (status_code r))], RNone))
   \<and> (\<forall>e. roadmap_post w t rt ai = Inl e \<or>
           (\<exists>r. roadmap_post w t rt ai = Inr r \<and> status_code r = 200 \<and> json_body r = Inl e) \<longrightarrow>
      call_visa_roadmap_api w t rt ai =
        ([RoadmapPost t rt ai, StError (ascii ''API Error: '' @ exn_str e)], RNone))
   \<and> (errors (fst (call_visa_roadmap_api w t rt ai)) = [] \<longleftrightarrow>
        (\<exists>r j. roadmap_post w t rt ai = Inr r \<and> status_code r = 200 \<and> json_body r = Inr j))"
proof (intro conjI allI impI)
  fix r j assume "roadmap_post w t rt ai = Inr r \<and> status_code r = 200 \<and> json_body r = Inr j"
  then show "call_visa_roadmap_api w t rt ai = ([RoadmapPost t rt ai], j)"
    by (simp add: call_ok)
next
  fix r assume "roadmap_post w t rt ai = Inr r \<and> status_code r = 404"
  then show "call_visa_roadmap_api w t rt ai =
        ([RoadmapPost t rt ai, StError (ascii ''API Error: Data Not Found (404)'')], RNone)"
    by (simp add: call_404)
next
  fix r assume "roadmap_post w t rt ai = Inr r \<and> status_code r \<noteq> 200 \<and> status_code r \<noteq> 404"
  then show "call_visa_roadmap_api w t rt ai =
        ([RoadmapPost t rt ai, StError (ascii ''API Error: '' @ str_int (status_code r))], RNone)"
    by (simp add: call_other)
next
  fix e assume "roadmap_post w t rt ai = Inl e \<or>
           (\<exists>r. roadmap_post w t rt ai = Inr r \<and> status_code r = 200 \<and> json_body r = Inl e)"
  then show "call_visa_roadmap_api w t rt ai =
        ([RoadmapPost t rt ai, StError (ascii ''API Error: '' @ exn_str e)], RNone)"
    using call_raises call_bad_json by blast
next
  show "errors (fst (call_visa_roadmap_api w t rt ai)) = [] \<longleftrightarrow>
        (\<exists>r j. roadmap_post w t rt ai = Inr r \<and> status_code r = 200 \<and> json_body r = Inr j)"
    by (rule call_errors)
qed

theorem call_visa_roadmap_api_cases_witness:
  "call_visa_roadmap_api (example_world (ocr_status 500) (Inr []) (answer_ok (RStr (ascii ''Apply''))))
      (ascii ''age 29'') (ascii ''Work Visa'') []
     = ([RoadmapPost (ascii ''age 29'') (ascii ''Work Visa'') []], RStr (ascii ''Apply''))
   \<and> call_visa_roadmap_api (example_world (ocr_status 500) (Inr []) (answer_status 404))
      (ascii ''age 29'') (ascii ''Work Visa'') []
     = ([RoadmapPost (ascii ''age 29'') (ascii ''Work Visa'') [],
         StError (ascii ''API Error: Data Not Found (404)'')], RNone)
   \<and> call_visa_roadmap_api (example_world (ocr_status 500) (Inr []) (answer_status 503))
      (ascii ''age 29'') (ascii ''Work Visa'') []
     = ([RoadmapPost (ascii ''age 29'') (ascii ''Work Visa'') [],
         StError (ascii ''API Error: 503'')], RNone)
   \<and> call_visa_roadmap_api (example_world (ocr_status 500) (Inr [])
        (Inl (Exn (ascii ''ConnectionError'') (ascii ''connection refused''))))
      (ascii ''age 29'') (ascii ''Work Visa'') []
     = ([RoadmapPost (ascii ''age 29'') (ascii ''Work Visa'') [],
         StError (ascii ''API Error: connection refused'')], RNone)"
  using
    call_visa_roadmap_api_cases [of "example_world (ocr_status 500) (Inr []) (answer_ok (RStr (ascii ''Apply'')))"
      "ascii ''age 29''" "ascii ''Work Visa''" "[]"]
    call_visa_roadmap_api_cases [of "example_world (ocr_status 500) (Inr []) (answer_status 404)"
      "ascii ''age 29''" "ascii ''Work Visa''" "[]"]
    call_visa_roadmap_api_cases [of "example_world (ocr_status 500) (Inr []) (answer_status 503)"
      "ascii ''age 29''" "ascii ''Work Visa''" "[]"]
    call_visa_roadmap_api_cases [of "example_world (ocr_status 500) (Inr [])
        (Inl (Exn (ascii ''ConnectionError'') (ascii ''connection refused'')))"
      "ascii ''age 29''" "ascii ''Work Visa''" "[]"]
  by (simp add: example_world_def answer_ok_def answer_status_def call_visa_roadmap_api_def
      str_int_def digits.simps ascii_def)

subsection \<open>Events of the blocks\<close>

lemma downloads_append: "downloads (xs @ ys) = downloads xs @ downloads ys"
  by (induction xs rule: downloads.induct) simp_all

lemma fallback_quiet:
  "filter is_section (fst (fallback_extract_text w f)) = [] \<and>
   downloads (fst (fallback_extract_text w f)) = []"
  by (simp add: fallback_extract_text_def split: sum.splits)

lemma extract_try_quiet:
  "extract_try w key f = Inr (evs, text) \<Longrightarrow> filter is_section evs = [] \<and> downloads evs = []"
  using fallback_quiet [of w f]
  by (auto simp: extract_try_def split: sum.splits if_splits json.splits option.splits)

lemma extract_quiet:
  "filter is_section (fst (extract_text_from_pdf w f)) = [] \<and>
   downloads (fst (extract_text_from_pdf w f)) = []"
  using fallback_quiet [of w f] extract_try_quiet [of w _ f]
  by (auto simp: extract_text_from_pdf_def split: option.splits sum.splits prod.splits)

lemma call_quiet:
  "filter is_section (fst (call_visa_roadmap_api w t rt ai)) = [] \<and>
   downloads (fst (call_visa_roadmap_api w t rt ai)) = []"
  by (simp add: call_visa_roadmap_api_def split: sum.splits)

lemma preview_downloads: "downloads (preview text) = []"
  by (simp add: preview_def)

lemma extract_text_key:
  "snd (extract_text_from_pdf w f) = Inr text \<Longrightarrow> secrets w (ascii ''RAPIDAPI_KEY'') \<noteq> None"
  by (auto simp: extract_text_from_pdf_def split: option.splits)

lemma handler_run:
  "snd (extract_text_from_pdf w f) = Inr text \<Longrightarrow>
   handler imm w rt ai f g =
     (StSpinner (ascii ''Extracting text from PDF...'') # fst (extract_text_from_pdf w f)
        @ preview text
        @ (if g then fst (if imm then generate_immigration w text rt ai
                          else generate_other w text rt ai) else []),
      if g then snd (if imm then generate_immigration w text rt ai
                     else generate_other w text rt ai) else None)"
  by (cases "extract_text_from_pdf w f") (simp add: handler_def split: prod.splits)

lemma script_run:
  "snd (extract_text_from_pdf w f) = Inr text \<Longrightarrow>
   script w (Some vt) ai (Some f) g = handler (vt = Immigration_Visa) w (label vt) ai f g"
  using extract_text_key [of w f "text"] by (auto simp: script_def)

lemma generate_none:
  "snd (call_visa_roadmap_api w t rt ai) = RNone \<Longrightarrow>
   generate_immigration w t rt ai
     = (StSpinner (ascii ''Processing...'') # fst (call_visa_roadmap_api w t rt ai), None)
   \<and> generate_other w t rt ai
     = (StSpinner (ascii ''Processing...'') # fst (call_visa_roadmap_api w t rt ai), None)"
  by (cases "call_visa_roadmap_api w t rt ai")
     (simp add: generate_immigration_def generate_other_def)

text \<open>
  C9. In a run whose call to the roadmap service returns \<open>None\<close>, the script offers no
  download, raises nothing, and shows no section besides the preview of the extracted
  text; both Generate blocks consist of the spinner and the client's own events.
\<close>
theorem null_result_not_rendered:
  assumes ext: "snd (extract_text_from_pdf w f) = Inr text"
    and null: "snd (call_visa_roadmap_api w text (label vt) ai) = RNone"
  shows "downloads (fst (script w (Some vt) ai (Some f) g)) = []
       \<and> filter is_section (fst (script w (Some vt) ai (Some f) g)) = filter is_section (preview text)
       \<and> snd (script w (Some vt) ai (Some f) g) = None
       \<and> generate_immigration w text (label vt) ai
           = (StSpinner (ascii ''Processing...'') # fst (call_visa_roadmap_api w text (label vt) ai), None)
       \<and> generate_other w text (label vt) ai
           = (StSpinner (ascii ''Processing...'') # fst (call_visa_roadmap_api w text (label vt) ai), None)"
proof -
  from generate_none [OF null]
  have gi: "generate_immigration w text (label vt) ai
      = (StSpinner (ascii ''Processing...'') # fst (call_visa_roadmap_api w text (label vt) ai), None)"
    and go: "generate_other w text (label vt) ai
      = (StSpinner (ascii ''Processing...'') # fst (call_visa_roadmap_api w text (label vt) ai), None)"
    by blast+
  have gen: "(if vt = Immigration_Visa then generate_immigration w text (label vt) ai
              else generate_other w text (label vt) ai)
             = (StSpinner (ascii ''Processing...'') # fst (call_visa_roadmap_api w text (label vt) ai), None)"
    by (simp only: gi go if_cancel)
  show ?thesis
    using generate_none [OF null] extract_quiet [of w f] call_quiet [of w "text" "label vt" ai]
    by (simp add: script_run [OF ext] handler_run [OF ext] gen downloads_append preview_downloads)
qed

theorem null_result_not_rendered_witness:
  "script (example_world (ocr_ok (ascii ''age 29'')) (Inr []) (answer_status 404))
      (Some Immigration_Visa) [] (Some [7]) True
   = ([StSpinner (ascii ''Extracting text from PDF...''), OcrPost (ascii ''k'') [7],
       StSuccess (ascii ''PDF text extracted successfully!''),
       StExpander (ascii ''Preview extracted text'') False, StText (ascii ''age 29''),
       StSpinner (ascii ''Processing...''),
       RoadmapPost (ascii ''age 29'') (ascii ''Immigration Visa'') [],
       StError (ascii ''API Error: Data Not Found (404)'')], None)
   \<and> downloads (fst (script (example_world (ocr_ok (ascii ''age 29'')) (Inr []) (answer_status 404))
      (Some Immigration_Visa) [] (Some [7]) True)) = []"
  using null_result_not_rendered [of "example_world (ocr_ok (ascii ''age 29'')) (Inr []) (answer_status 404)"
      "[7]" "ascii ''age 29''" Immigration_Visa "[]" True]
  by (simp add: example_world_def ocr_ok_def answer_status_def script_def handler_def preview_def
      generate_immigration_def call_visa_roadmap_api_def extract_text_from_pdf_def extract_try_def
      str_split_def isspace_def str_int_def digits.simps ascii_def)

section \<open>Properties of the report renderer\<close>

subsection \<open>Downloads\<close>

lemma generate_other_str:
  "snd (call_visa_roadmap_api w t rt ai) = RStr s \<Longrightarrow> s \<noteq> [] \<Longrightarrow>
   downloads (fst (generate_other w t rt ai)) =
     [\<lparr>dl_label = ascii ''Download Roadmap as PDF'',
       dl_data = [(ascii ''# '' @ rt @ ascii '' Roadmap'' @ [10, 10] @ s, False)],
       dl_file_name = str_lower rt @ ascii ''_roadmap.pdf'',
       dl_mime = ascii ''application/pdf''\<rparr>]"
  using call_quiet [of w t rt ai]
  by (cases "call_visa_roadmap_api w t rt ai") (simp add: generate_other_def downloads_append)

lemma script_other_str:
  assumes "vt \<noteq> Immigration_Visa"
    and ext: "snd (extract_text_from_pdf w f) = Inr text"
    and "snd (call_visa_roadmap_api w text (label vt) ai) = RStr s"
    and "s \<noteq> []"
  shows "downloads (fst (script w (Some vt) ai (Some f) True)) =
     [\<lparr>dl_label = ascii ''Download Roadmap as PDF'',
       dl_data = [(ascii ''# '' @ label vt @ ascii '' Roadmap'' @ [10, 10] @ s, False)],
       dl_file_name = str_lower (label vt) @ ascii ''_roadmap.pdf'',
       dl_mime = ascii ''application/pdf''\<rparr>]"
  using assms(1) generate_other_str [OF assms(3,4)] extract_quiet [of w f]
  by (simp add: script_run [OF ext] handler_run [OF ext] downloads_append preview_downloads)

lemma non_immigration_labels:
  "vt \<noteq> Immigration_Visa \<Longrightarrow>
   label vt \<in> {ascii ''Study Visa'', ascii ''Travel Visa'', ascii ''Work Visa''}"
  by (cases vt) simp_all

text \<open>
  C1 (amended). For a visa type other than Immigration and a plain-string result,
  \<open>create_pdf_content\<close> returns the heading \<open># <label> Roadmap\<close>, a blank line and the
  raw result, where the label is the text of the selected option (Study Visa, Travel
  Visa or Work Visa); when the result is not empty, this is the one section of the PDF
  behind the download button of the run.
\<close>
theorem download_content:
  assumes "vt \<noteq> Immigration_Visa"
  shows "create_pdf_content (label vt) (RStr s) = ascii ''# '' @ label vt @ ascii '' Roadmap'' @ [10, 10] @ s
       \<and> label vt \<in> {ascii ''Study Visa'', ascii ''Travel Visa'', ascii ''Work Visa''}
       \<and> (\<forall>w f text ai. snd (extract_text_from_pdf w f) = Inr text \<and>
             snd (call_visa_roadmap_api w text (label vt) ai) = RStr s \<and> s \<noteq> [] \<longrightarrow>
             map dl_data (downloads (fst (script w (Some vt) ai (Some f) True)))
               = [[(ascii ''# '' @ label vt @ ascii '' Roadmap'' @ [10, 10] @ s, False)]])"
  using assms non_immigration_labels [OF assms] by (simp add: script_other_str)

lemma work_world_extract:
  "snd (extract_text_from_pdf work_world [7]) = Inr (ascii ''age 29 job developer'')"
  by (simp add: work_world_def extract_text_from_pdf_def extract_try_def example_world_def ocr_ok_def
      str_split_def isspace_def ascii_def)

lemma work_world_call:
  "snd (call_visa_roadmap_api work_world t rt ai) = RStr (ascii ''Apply via Express Entry...'')"
  by (simp add: work_world_def call_visa_roadmap_api_def example_world_def answer_ok_def)

lemma work_world_downloads:
  "downloads (fst (script work_world (Some Work_Visa) [] (Some [7]) True)) =
     [\<lparr>dl_label = ascii ''Download Roadmap as PDF'',
       dl_data = [(ascii ''# Work Visa Roadmap'' @ [10, 10] @ ascii ''Apply via Express Entry...'', False)],
       dl_file_name = ascii ''work visa_roadmap.pdf'',
       dl_mime = ascii ''application/pdf''\<rparr>]"
  using script_other_str [of Work_Visa work_world "[7]" "ascii ''age 29 job developer''" "[]"
      "ascii ''Apply via Express Entry...''"] work_world_extract work_world_call
  by (simp add: str_lower_def lower_cp_def ascii_def)

theorem download_content_witness:
  "map dl_data (downloads (fst (script work_world (Some Work_Visa) [] (Some [7]) True)))
     = [[(ascii ''# Work Visa Roadmap'' @ [10, 10] @ ascii ''Apply via Express Entry...'', False)]]"
  using download_content [of Work_Visa "ascii ''Apply via Express Entry...''"]
    work_world_extract work_world_call
  by (simp add: ascii_def)

text \<open>
  C1 as stated fails: for the option Work Visa and the result
  \<open>Apply via Express Entry...\<close> the content of the download is not
  \<open># Work Roadmap\<close> followed by the result; the heading reads \<open># Work Visa Roadmap\<close>.
\<close>
theorem work_heading_counterexample:
  "map dl_data (downloads (fst (script work_world (Some Work_Visa) [] (Some [7]) True)))
     \<noteq> [[(ascii ''# Work Roadmap'' @ [10, 10] @ ascii ''Apply via Express Entry...'', False)]]"
  by (simp add: work_world_downloads ascii_def)

subsection \<open>File names\<close>

lemma downloads_nocs:
  "downloads (concat (map (\<lambda>noc. [StMarkdown (RStr noc), StMarkdown (RStr m)]) nocs)) = []"
  by (induction nocs) simp_all

lemma show_immigration_names:
  "show_immigration rt r = (evs, x) \<Longrightarrow> d \<in> set (downloads evs) \<Longrightarrow>
   dl_file_name d = ascii ''immigration_roadmap.pdf''"
  by (auto simp: show_immigration_def getitem_def downloads_append downloads_nocs Let_def
      split: option.splits)

lemma generate_immigration_names:
  "d \<in> set (downloads (fst (generate_immigration w t rt ai))) \<Longrightarrow>
   dl_file_name d = ascii ''immigration_roadmap.pdf''"
  using call_quiet [of w t rt ai] show_immigration_names [of rt _ _ _ d]
  by (cases "call_visa_roadmap_api w t rt ai")
     (auto simp: generate_immigration_def downloads_append
       split: if_splits roadmap_result.splits prod.splits)

lemma generate_other_names:
  "d \<in> set (downloads (fst (generate_other w t rt ai))) \<Longrightarrow>
   dl_file_name d = str_lower rt @ ascii ''_roadmap.pdf''"
  using call_quiet [of w t rt ai]
  by (cases "call_visa_roadmap_api w t rt ai")
     (auto simp: generate_other_def downloads_append split: if_splits)

lemma handler_names:
  "d \<in> set (downloads (fst (handler imm w rt ai f g))) \<Longrightarrow>
   dl_file_name d = (if imm then ascii ''immigration_roadmap.pdf''
                     else str_lower rt @ ascii ''_roadmap.pdf'')"
proof (cases "snd (extract_text_from_pdf w f)")
  case (Inl e)
  assume "d \<in> set (downloads (fst (handler imm w rt ai f g)))"
  with Inl extract_quiet [of w f] show ?thesis
    by (cases "extract_text_from_pdf w f") (simp add: handler_def)
next
  case (Inr extracted)
  assume "d \<in> set (downloads (fst (handler imm w rt ai f g)))"
  with extract_quiet [of w f] generate_immigration_names [of d w extracted rt ai]
    generate_other_names [of d w extracted rt ai]
  show ?thesis
    by (auto simp: handler_run [OF Inr] downloads_append preview_downloads split: if_splits)
qed

text \<open>
  C2 (amended). Every download button of a run carries the file name
  \<open>immigration_roadmap.pdf\<close> in the Immigration case and otherwise the lower-cased text
  of the selected option followed by \<open>_roadmap.pdf\<close>: \<open>study visa_roadmap.pdf\<close>,
  \<open>travel visa_roadmap.pdf\<close> or \<open>work visa_roadmap.pdf\<close>.
\<close>
theorem download_file_name:
  "d \<in> set (downloads (fst (script w (Some vt) ai up g))) \<Longrightarrow>
   dl_file_name d =
     (case vt of Immigration_Visa \<Rightarrow> ascii ''immigration_roadmap.pdf''
      | Study_Visa \<Rightarrow> ascii ''study visa_roadmap.pdf''
      | Travel_Visa \<Rightarrow> ascii ''travel visa_roadmap.pdf''
      | Work_Visa \<Rightarrow> ascii ''work visa_roadmap.pdf'')
   \<and> dl_file_name d =
     (if vt = Immigration_Visa then ascii ''immigration_roadmap.pdf''
      else str_lower (label vt) @ ascii ''_roadmap.pdf'')"
proof -
  assume d: "d \<in> set (downloads (fst (script w (Some vt) ai up g)))"
  then obtain f where "d \<in> set (downloads (fst (handler (vt = Immigration_Visa) w (label vt) ai f g)))"
    by (auto simp: script_def split: if_splits option.splits)
  from handler_names [OF this] show ?thesis
    by (cases vt) (simp_all add: str_lower_def lower_cp_def ascii_def)
qed

theorem download_file_name_witness:
  "\<lparr>dl_label = ascii ''Download Roadmap as PDF'',
     dl_data = [(ascii ''# Work Visa Roadmap'' @ [10, 10] @ ascii ''Apply via Express Entry...'', False)],
     dl_file_name = ascii ''work visa_roadmap.pdf'',
     dl_mime = ascii ''application/pdf''\<rparr>
     \<in> set (downloads (fst (script work_world (Some Work_Visa) [] (Some [7]) True)))
   \<and> map dl_file_name (downloads (fst (script work_world (Some Work_Visa) [] (Some [7]) True)))
     = [ascii ''work visa_roadmap.pdf'']"
proof -
  have h: "\<lparr>dl_label = ascii ''Download Roadmap as PDF'',
     dl_data = [(ascii ''# Work Visa Roadmap'' @ [10, 10] @ ascii ''Apply via Express Entry...'', False)],
     dl_file_name = ascii ''work visa_roadmap.pdf'',
     dl_mime = ascii ''application/pdf''\<rparr>
     \<in> set (downloads (fst (script work_world (Some Work_Visa) [] (Some [7]) True)))"
    by (simp add: work_world_downloads)
  show ?thesis using h download_file_name [OF h] by (simp add: work_world_downloads)
qed

text \<open>
  C2 as stated fails: for the option Work Visa the file of the rendered report is not
  named \<open>work_roadmap.pdf\<close>.
\<close>
theorem work_file_name_counterexample:
  "map dl_file_name (downloads (fst (script work_world (Some Work_Visa) [] (Some [7]) True)))
     \<noteq> [ascii ''work_roadmap.pdf'']"
  by (simp add: work_world_downloads ascii_def)

subsection \<open>The Immigration display\<close>

lemma expanders_append: "expanders (xs @ ys) = expanders xs @ expanders ys"
  by (induction xs rule: expanders.induct) simp_all

lemma expanders_nocs:
  "expanders (concat (map (\<lambda>noc. [StMarkdown (RStr noc), StMarkdown (RStr m)]) nocs)) = []"
  by (induction nocs) simp_all

lemma questionnaire_missing:
  "filter (\<lambda>line. str_strip line \<noteq> []) (split_on bullet_marker [] []) = []"
  by (simp add: str_strip_def)

lemma markdown_sections:
  "\<exists>q n. markdown_content d =
       (ascii ''# Immigration Profile Report'' @ [10]) # labeled_sections
         [(ascii ''## 1. Questionnaire and Response:'' @ [10], q),
          (ascii ''## 2. Job Roles Based on Education and Work Experience:'' @ [10],
             [get_default (job_roles d) [] @ [10]]),
          (ascii ''## 3. NOC Codes:'' @ [10], n),
          (ascii ''## 4. CRS Score Breakdown:'' @ [10], [get_default (crs_score d) [] @ [10]]),
          (ascii ''## 5. Roadmap for Canada Immigration:'' @ [10],
             [get_default (roadmap d) [] @ [10]])]
       \<and> (questionnaire d = None \<longrightarrow> q = []) \<and> (noc_codes d = None \<longrightarrow> n = [])"
proof (intro exI conjI)
  show "markdown_content d =
       (ascii ''# Immigration Profile Report'' @ [10]) # labeled_sections
         [(ascii ''## 1. Questionnaire and Response:'' @ [10],
             map (\<lambda>line. ascii ''- '' @ str_strip line @ [10])
               (filter (\<lambda>line. str_strip line \<noteq> [])
                 (split_on bullet_marker [] (get_default (questionnaire d) [])))),
          (ascii ''## 2. Job Roles Based on Education and Work Experience:'' @ [10],
             [get_default (job_roles d) [] @ [10]]),
          (ascii ''## 3. NOC Codes:'' @ [10],
             map (\<lambda>noc. ascii ''- '' @ str_strip noc @ [10]) (get_default (noc_codes d) [])),
          (ascii ''## 4. CRS Score Breakdown:'' @ [10], [get_default (crs_score d) [] @ [10]]),
          (ascii ''## 5. Roadmap for Canada Immigration:'' @ [10],
             [get_default (roadmap d) [] @ [10]])]"
    by (simp add: markdown_content_def labeled_sections_def)
  show "questionnaire d = None \<longrightarrow>
        map (\<lambda>line. ascii ''- '' @ str_strip line @ [10])
               (filter (\<lambda>line. str_strip line \<noteq> [])
                 (split_on bullet_marker [] (get_default (questionnaire d) []))) = []"
    by (simp add: get_default_def str_strip_def)
  show "noc_codes d = None \<longrightarrow>
        map (\<lambda>noc. ascii ''- '' @ str_strip noc @ [10]) (get_default (noc_codes d) []) = []"
    by (simp add: get_default_def)
qed

lemma missing_is_empty:
  "convert_dict_to_markdown (d\<lparr>questionnaire := None\<rparr>) = convert_dict_to_markdown (d\<lparr>questionnaire := Some []\<rparr>)"
  "convert_dict_to_markdown (d\<lparr>job_roles := None\<rparr>) = convert_dict_to_markdown (d\<lparr>job_roles := Some []\<rparr>)"
  "convert_dict_to_markdown (d\<lparr>noc_codes := None\<rparr>) = convert_dict_to_markdown (d\<lparr>noc_codes := Some []\<rparr>)"
  "convert_dict_to_markdown (d\<lparr>crs_score := None\<rparr>) = convert_dict_to_markdown (d\<lparr>crs_score := Some []\<rparr>)"
  "convert_dict_to_markdown (d\<lparr>roadmap := None\<rparr>) = convert_dict_to_markdown (d\<lparr>roadmap := Some []\<rparr>)"
  by (simp_all add: convert_dict_to_markdown_def markdown_content_def get_default_def)

lemma show_immigration_complete:
  "roadmap d = Some rm \<Longrightarrow> crs_score d = Some crs \<Longrightarrow> job_roles d = Some jr \<Longrightarrow>
   noc_codes d = Some nocs \<Longrightarrow>
   snd (show_immigration rt d) = None \<and>
   expanders (fst (show_immigration rt d)) =
     [ascii ''Roadmap'', ascii ''CRS Score Details'', ascii ''Eligible Job Roles'', ascii ''NOC Codes'']"
  by (simp add: show_immigration_def getitem_def expanders_append expanders_nocs)

text \<open>
  C3 (amended). For every result mapping, whichever fields are missing,
  \<open>convert_dict_to_markdown\<close> returns a document (it raises nothing) that consists of
  the title and exactly five labeled sections, in the order questionnaire, job roles,
  NOC codes, CRS score and roadmap; a missing field gives the content of an empty one.
  The display of the Generate block shows the four expanders Roadmap, CRS Score
  Details, Eligible Job Roles and NOC Codes, and raises nothing, when the fields
  \<open>roadmap\<close>, \<open>crs_score\<close>, \<open>job_roles\<close> and \<open>noc_codes\<close> are all present.
\<close>
theorem immigration_display:
  "(\<exists>q n. markdown_content d =
       (ascii ''# Immigration Profile Report'' @ [10]) # labeled_sections
         [(ascii ''## 1. Questionnaire and Response:'' @ [10], q),
          (ascii ''## 2. Job Roles Based on Education and Work Experience:'' @ [10],
             [get_default (job_roles d) [] @ [10]]),
          (ascii ''## 3. NOC Codes:'' @ [10], n),
          (ascii ''## 4. CRS Score Breakdown:'' @ [10], [get_default (crs_score d) [] @ [10]]),
          (ascii ''## 5. Roadmap for Canada Immigration:'' @ [10],
             [get_default (roadmap d) [] @ [10]])]
       \<and> (questionnaire d = None \<longrightarrow> q = []) \<and> (noc_codes d = None \<longrightarrow> n = []))
   \<and> convert_dict_to_markdown d = str_join [10] (markdown_content d)
   \<and> convert_dict_to_markdown (d\<lparr>questionnaire := None\<rparr>) = convert_dict_to_markdown (d\<lparr>questionnaire := Some []\<rparr>)
   \<and> convert_dict_to_markdown (d\<lparr>job_roles := None\<rparr>) = convert_dict_to_markdown (d\<lparr>job_roles := Some []\<rparr>)
   \<and> convert_dict_to_markdown (d\<lparr>noc_codes := None\<rparr>) = convert_dict_to_markdown (d\<lparr>noc_codes := Some []\<rparr>)
   \<and> convert_dict_to_markdown (d\<lparr>crs_score := None\<rparr>) = convert_dict_to_markdown (d\<lparr>crs_score := Some []\<rparr>)
   \<and> convert_dict_to_markdown (d\<lparr>roadmap := None\<rparr>) = convert_dict_to_markdown (d\<lparr>roadmap := Some []\<rparr>)
   \<and> (\<forall>rm crs jr nocs. roadmap d = Some rm \<and> crs_score d = Some crs \<and> job_roles d = Some jr \<and>
         noc_codes d = Some nocs \<longrightarrow>
         snd (show_immigration rt d) = None \<and>
         expanders (fst (show_immigration rt d)) =
           [ascii ''Roadmap'', ascii ''CRS Score Details'', ascii ''Eligible Job Roles'',
            ascii ''NOC Codes''])"
  using markdown_sections [of d] missing_is_empty [of d] show_immigration_complete [of d _ _ _ _ rt]
  by (simp only: convert_dict_to_markdown_def) blast

theorem immigration_display_witness:
  "convert_dict_to_markdown empty_fields =
     ascii ''# Immigration Profile Report'' @ [10, 10]
     @ ascii ''## 1. Questionnaire and Response:'' @ [10, 10]
     @ ascii ''## 2. Job Roles Based on Education and Work Experience:'' @ [10, 10, 10, 10]
     @ ascii ''## 3. NOC Codes:'' @ [10, 10]
     @ ascii ''## 4. CRS Score Breakdown:'' @ [10, 10, 10, 10]
     @ ascii ''## 5. Roadmap for Canada Immigration:'' @ [10, 10, 10]
   \<and> snd (show_immigration (label Immigration_Visa) sample_dict) = None
   \<and> expanders (fst (show_immigration (label Immigration_Visa) sample_dict)) =
        [ascii ''Roadmap'', ascii ''CRS Score Details'', ascii ''Eligible Job Roles'',
         ascii ''NOC Codes'']"
  using immigration_display [of empty_fields "label Immigration_Visa"]
    immigration_display [of sample_dict "label Immigration_Visa"]
  by (simp add: empty_fields_def sample_dict_def labeled_sections_def get_default_def)

text \<open>
  C3 as stated fails on the display of the Generate block. For a complete mapping it
  shows four expanders, none of them for the questionnaire; for a mapping without the
  field \<open>roadmap\<close> the block stops at \<open>result["roadmap"]\<close> with a \<open>KeyError\<close>, after
  the subheader and the first expander.
\<close>
theorem immigration_display_counterexample:
  "expanders (fst (generate_immigration
       (example_world (ocr_status 500) (Inr []) (answer_ok (RDict sample_dict)))
       (ascii ''age 29'') (label Immigration_Visa) []))
     = [ascii ''Roadmap'', ascii ''CRS Score Details'', ascii ''Eligible Job Roles'', ascii ''NOC Codes'']
   \<and> generate_immigration
       (example_world (ocr_status 500) (Inr []) (answer_ok (RDict (sample_dict\<lparr>roadmap := None\<rparr>))))
       (ascii ''age 29'') (label Immigration_Visa) []
     = ([StSpinner (ascii ''Processing...''),
         RoadmapPost (ascii ''age 29'') (ascii ''Immigration Visa'') [],
         StSubheader (ascii ''Your Immigration Roadmap''),
         StExpander (ascii ''Roadmap'') True],
        Some (Exn (ascii ''KeyError'') ([39] @ ascii ''roadmap'' @ [39])))"
  by (simp add: generate_immigration_def call_visa_roadmap_api_def example_world_def answer_ok_def
      sample_dict_def show_immigration_def getitem_def)

end
